theory Spec2Isabelle
  imports Main "HOL-Library.Word"
begin

unbundle bit_operations_syntax

text \<open>
  A shallow embedding of the multiplayer server: the session slots of the worker pool and
  their state machine, the receiver that frames and decodes the inbound TCP stream, the
  sender with its fault-tolerance counter, the event processor, and the HTTP login handler.
  A goroutine's \<open>for { select { ... } }\<close> loop is a function over the list of cases the
  \<open>select\<close> takes; what a goroutine does to channels, connections and collaborators is
  recorded in a trace.
\<close>

section \<open>Session slots (workers) and their state machine\<close>

type_synonym byte = "8 word"

type_synonym IP = "byte list"

text \<open>
  Modelled from the spec: the package \<open>worker_status\<close> with the status constants is not
  under src/. The code names \<open>PULLED_OUT\<close>, \<open>CLIENT_INFORMATION_RECEIVED\<close>, \<open>WORKING\<close>
  and \<open>TERMINATED\<close>; the specification (section 3) lists the five states
  AVAILABLE, PULLED_OUT, INFO_RECEIVED, WORKING, TERMINATED. The initial one is called IDLE
  in the code's log messages.
\<close>

datatype WorkerStatus = IDLE | PULLED_OUT | CLIENT_INFORMATION_RECEIVED | WORKING | TERMINATED

text \<open>
  The three \<open>errors.New\<close> values of the worker methods, all of them
  \<open>INVALID STATUS CHANGE: ...\<close> messages (the specification's InvalidStateError).
\<close>

datatype invalid_status_change =
    WORKER_STATUS_NOT_IDLE
  | WORKER_STATUS_NOT_CLIENT_INFORMATION_RECEIVED
  | NO_MANDATORY_PROPERTY_SendUserRelatedDataToClient

datatype error = InvalidStateError invalid_status_change

text \<open>
  A goroutine started by \<open>go w.SendUserRelatedDataToClient(owner, ip, port, stop)\<close>, with
  the arguments it was started with.
\<close>

datatype goroutine = SendRoutine string "IP option" int

text \<open>
  Modelled from the spec: the declaration of the struct \<open>Worker\<close> is not under src/. The
  record has the fields that the methods under src/ read and write (specification, section 3:
  port, status, ownerUserId, clientAddress, signal queues). \<open>ClientIP\<close> is a pointer
  (\<open>None\<close> is nil). \<open>ForceExitSignal\<close> is a channel of empty signals: the field counts the
  signals sent on it and not yet received; a send is modelled as completing (whether it
  blocks depends on the other goroutines). \<open>SendUserRelatedDataToClient\<close> is a function
  value: the field says whether it is non-nil. \<open>started\<close> collects the goroutines the
  worker has started, in order. The field \<open>status\<close> is read by \<open>GetStatus\<close> and written by
  \<open>ChangeStatus\<close> (the event processor assigns it directly).
\<close>

record Worker =
  status :: WorkerStatus
  Port :: int
  OwnerUserID :: string
  ClientIP :: "IP option"
  ClientPort :: int
  ForceExitSignal :: nat
  SendUserRelatedDataToClient :: bool
  started :: "goroutine list"

definition GetStatus :: "Worker \<Rightarrow> WorkerStatus" where
  "GetStatus w = status w"

definition ChangeStatus :: "WorkerStatus \<Rightarrow> Worker \<Rightarrow> Worker" where
  "ChangeStatus s w = w\<lparr>status := s\<rparr>"

text \<open>\<open>w.ForceExitSignal <- game.Signal\<close>\<close>

definition send_ForceExitSignal :: "Worker \<Rightarrow> Worker" where
  "send_ForceExitSignal w = w\<lparr>ForceExitSignal := Suc (ForceExitSignal w)\<rparr>"

text \<open>
  \<open>SetClientInformation\<close>: the returned pair is Go's error result (\<open>None\<close> is nil) and
  the worker after the call.
\<close>

definition SetClientInformation :: "string \<Rightarrow> IP option \<Rightarrow> int \<Rightarrow> Worker \<Rightarrow> error option \<times> Worker" where
  "SetClientInformation userId clientIP clientPort w =
     (if GetStatus w \<noteq> PULLED_OUT
      then (Some (InvalidStateError WORKER_STATUS_NOT_IDLE), send_ForceExitSignal w)
      else (None,
            (ChangeStatus CLIENT_INFORMATION_RECEIVED w)
              \<lparr>OwnerUserID := userId, ClientIP := clientIP, ClientPort := clientPort\<rparr>))"

definition StartSendUserRelatedDataToClient :: "Worker \<Rightarrow> error option \<times> Worker" where
  "StartSendUserRelatedDataToClient w =
     (if GetStatus w \<noteq> CLIENT_INFORMATION_RECEIVED
      then (Some (InvalidStateError WORKER_STATUS_NOT_CLIENT_INFORMATION_RECEIVED),
            send_ForceExitSignal w)
      else if \<not> SendUserRelatedDataToClient w
      then (Some (InvalidStateError NO_MANDATORY_PROPERTY_SendUserRelatedDataToClient),
            send_ForceExitSignal w)
      else (None,
            (ChangeStatus WORKING w)
              \<lparr>started := started w @ [SendRoutine (OwnerUserID w) (ClientIP w) (ClientPort w)]\<rparr>))"

text \<open>A slot as the pool hands it out, used to run the methods on concrete values.\<close>

definition pulled_worker :: Worker where
  "pulled_worker =
     \<lparr>status = PULLED_OUT, Port = 50001, OwnerUserID = [], ClientIP = None, ClientPort = 0,
      ForceExitSignal = 0, SendUserRelatedDataToClient = True, started = []\<rparr>"

section \<open>Wire messages\<close>

definition BUFFER_SIZE :: nat where
  "BUFFER_SIZE = 4096"

definition BUFFER_DELIMITER :: byte where
  "BUFFER_DELIMITER = 0x24"

definition PACKET_TYPE_STATUS :: byte where
  "PACKET_TYPE_STATUS = 0"

definition PACKET_TYPE_ATTACK :: byte where
  "PACKET_TYPE_ATTACK = 1"

text \<open>
  Modelled from the spec: the packages \<open>protodef\<close> (the generated message types) and
  \<open>game\<close> are not under src/. Specification, section 6: Status payload =
  serialized {userId, position{x,y}}, Attack payload = serialized {userId,
  userPosition{x,y}, attackPosition{x,y}}. A Go string is its bytes. In the generated types a
  message field is a pointer, \<open>None\<close> when the field is absent from the payload (the sender
  builds \<open>&protodef.Position{...}\<close> for such a field); reading \<open>.X\<close> through a nil
  pointer panics. The field \<open>Id\<close> of the Status message is called \<open>StatusId\<close> here.
\<close>

record Position =
  X :: "32 word"
  Y :: "32 word"

record protodef_Status =
  StatusId :: "byte list"
  CurrentPosition :: "Position option"

record protodef_Attack =
  UserId :: "byte list"
  UserPosition :: "Position option"
  AttackPosition :: "Position option"

text \<open>\<open>game.Status\<close> and \<open>game.Attack\<close>, the inbound events.\<close>

datatype event = Status "byte list" Position | Attack "byte list" Position Position

text \<open>
  What a task does to its environment, in the order it does it: a send on
  \<open>game.StatusReceiver\<close> or \<open>game.AttackReceiver\<close>, a call of
  \<open>sendMutualTerminationSignal\<close>, the echo of a liveness ping, a \<open>conn.Write\<close>, the three
  \<open>RemoveUser\<close> calls of the sender and the processor's \<open>UpdateUserPosition\<close>. Channel
  sends are modelled as completing. Extending the read deadline and logging leave no entry.
\<close>

datatype action =
    StatusReceiver "byte list" Position
  | AttackReceiver "byte list" Position Position
  | sendMutualTerminationSignal
  | HealthCheckerEcho
  | conn_Write
  | gameMap_RemoveUser string
  | userStatuses_RemoveUser string
  | scoreboard_RemoveUser string
  | UpdateUserPosition "byte list" Position

text \<open>
  \<open>proto.Unmarshal\<close> into a fresh message: the error flag and the message as the call
  leaves it. The receiver takes the two decoders as parameters.
\<close>

type_synonym unmarshal_Status = "byte list \<Rightarrow> bool \<times> protodef_Status"
type_synonym unmarshal_Attack = "byte list \<Rightarrow> bool \<times> protodef_Attack"
type_synonym marshal_Status = "protodef_Status \<Rightarrow> byte list"
type_synonym marshal_Attack = "protodef_Attack \<Rightarrow> byte list"

subsection \<open>The protocol-buffers encoding of the messages\<close>

text \<open>
  Modelled from the spec: the file \<open>status.proto\<close> and the protobuf library that the code
  calls (\<open>proto.Unmarshal\<close>, \<open>proto.Marshal\<close>) are not under src/. Specification, section
  6, gives the fields of the two inbound payloads; the definitions below encode them in the
  protocol-buffers wire format, the fields numbered in the order the specification lists
  them, coordinates as int32. A payload is a sequence of fields, each a varint key (field
  number, wire type) followed by a varint, eight bytes, a length-prefixed byte string or four
  bytes. Groups and the UTF-8 check of strings are left out: a group key is an error here.
  These definitions are one codec to run the receiver on; the properties of the receiver
  are proved for every decoder.
\<close>

fun uvarint :: "nat \<Rightarrow> byte list \<Rightarrow> (64 word \<times> byte list) option" where
  "uvarint k [] = None"
| "uvarint k (b # bs) =
     (if 10 \<le> k then None
      else if b < 0x80
      then (if k = 9 \<and> 1 < b then None else Some (push_bit (7 * k) (ucast b), bs))
      else (case uvarint (Suc k) bs of
              None \<Rightarrow> None
            | Some (v, r) \<Rightarrow> Some (push_bit (7 * k) (ucast (b AND 0x7F)) OR v, r)))"

fun varint_bytes :: "nat \<Rightarrow> byte list" where
  "varint_bytes n =
     (if n < 128 then [of_nat n] else of_nat (n mod 128 + 128) # varint_bytes (n div 128))"

declare varint_bytes.simps [simp del]

definition put_uvarint :: "64 word \<Rightarrow> byte list" where
  "put_uvarint v = varint_bytes (unat v)"

datatype wire = Varint "64 word" | Fixed64 "byte list" | Bytes "byte list" | Fixed32 "byte list"

definition consume_field :: "byte list \<Rightarrow> ((nat \<times> wire) \<times> byte list) option" where
  "consume_field bs =
     (case uvarint 0 bs of
        None \<Rightarrow> None
      | Some (tag, r) \<Rightarrow>
          let num = unat (drop_bit 3 tag); typ = unat (tag AND 7)
          in if num = 0 then None
             else if typ = 0
             then (case uvarint 0 r of
                     None \<Rightarrow> None
                   | Some (v, r') \<Rightarrow> Some ((num, Varint v), r'))
             else if typ = 1
             then (if length r < 8 then None else Some ((num, Fixed64 (take 8 r)), drop 8 r))
             else if typ = 2
             then (case uvarint 0 r of
                     None \<Rightarrow> None
                   | Some (n, r') \<Rightarrow>
                       if length r' < unat n then None
                       else Some ((num, Bytes (take (unat n) r')), drop (unat n) r'))
             else if typ = 5
             then (if length r < 4 then None else Some ((num, Fixed32 (take 4 r)), drop 4 r))
             else None)"

lemma uvarint_shorter: "uvarint k bs = Some (v, r) \<Longrightarrow> length r < length bs"
proof (induction bs arbitrary: k v)
  case Nil
  then show ?case by simp
next
  case (Cons b bs)
  then show ?case
    by (fastforce split: if_splits option.splits)
qed

lemma consume_field_shorter:
  assumes "consume_field bs = Some (f, r)"
  shows "length r < length bs"
proof -
  from assms obtain tag r0 where t: "uvarint 0 bs = Some (tag, r0)"
    by (auto simp: consume_field_def split: option.splits)
  then have "length r0 < length bs" by (rule uvarint_shorter)
  moreover have "length r \<le> length r0"
    using assms t
    by (auto simp: consume_field_def Let_def split: option.splits if_splits
             dest!: uvarint_shorter)
  ultimately show ?thesis by simp
qed

text \<open>The fields of a payload, up to the first malformed one, and whether there was one.\<close>

function fields :: "byte list \<Rightarrow> (nat \<times> wire) list \<times> bool" where
  "fields [] = ([], False)"
| "fields (b # bs) =
     (case consume_field (b # bs) of
        None \<Rightarrow> ([], True)
      | Some (f, r) \<Rightarrow> (case fields r of (fs, err) \<Rightarrow> (f # fs, err)))"
  by pat_completeness auto
termination
  by (relation "measure length") (auto dest: consume_field_shorter)

definition set_Position_field :: "Position \<Rightarrow> nat \<times> wire \<Rightarrow> Position" where
  "set_Position_field p f =
     (case snd f of
        Varint v \<Rightarrow>
          if fst f = 1 then p\<lparr>X := ucast v\<rparr> else if fst f = 2 then p\<lparr>Y := ucast v\<rparr> else p
      | _ \<Rightarrow> p)"

definition unmarshal_Position :: "Position \<Rightarrow> byte list \<Rightarrow> bool \<times> Position" where
  "unmarshal_Position p bs = (case fields bs of (fs, err) \<Rightarrow> (err, foldl set_Position_field p fs))"

definition merge_Position :: "Position option \<Rightarrow> byte list \<Rightarrow> bool \<times> Position" where
  "merge_Position old bs =
     unmarshal_Position (case old of None \<Rightarrow> \<lparr>X = 0, Y = 0\<rparr> | Some p \<Rightarrow> p) bs"

fun Status_fields :: "protodef_Status \<Rightarrow> (nat \<times> wire) list \<Rightarrow> bool \<times> protodef_Status" where
  "Status_fields m [] = (False, m)"
| "Status_fields m ((num, Bytes b) # fs) =
     (if num = 1 then Status_fields (m\<lparr>StatusId := b\<rparr>) fs
      else if num = 2
      then (case merge_Position (CurrentPosition m) b of
              (err, p) \<Rightarrow>
                if err then (True, m\<lparr>CurrentPosition := Some p\<rparr>)
                else Status_fields (m\<lparr>CurrentPosition := Some p\<rparr>) fs)
      else Status_fields m fs)"
| "Status_fields m (f # fs) = Status_fields m fs"

definition proto_Unmarshal_Status :: unmarshal_Status where
  "proto_Unmarshal_Status bs =
     (case fields bs of
        (fs, err) \<Rightarrow>
          (case Status_fields \<lparr>StatusId = [], CurrentPosition = None\<rparr> fs of
             (err', m) \<Rightarrow> (err \<or> err', m)))"

fun Attack_fields :: "protodef_Attack \<Rightarrow> (nat \<times> wire) list \<Rightarrow> bool \<times> protodef_Attack" where
  "Attack_fields m [] = (False, m)"
| "Attack_fields m ((num, Bytes b) # fs) =
     (if num = 1 then Attack_fields (m\<lparr>UserId := b\<rparr>) fs
      else if num = 2
      then (case merge_Position (UserPosition m) b of
              (err, p) \<Rightarrow>
                if err then (True, m\<lparr>UserPosition := Some p\<rparr>)
                else Attack_fields (m\<lparr>UserPosition := Some p\<rparr>) fs)
      else if num = 3
      then (case merge_Position (AttackPosition m) b of
              (err, p) \<Rightarrow>
                if err then (True, m\<lparr>AttackPosition := Some p\<rparr>)
                else Attack_fields (m\<lparr>AttackPosition := Some p\<rparr>) fs)
      else Attack_fields m fs)"
| "Attack_fields m (f # fs) = Attack_fields m fs"

definition proto_Unmarshal_Attack :: unmarshal_Attack where
  "proto_Unmarshal_Attack bs =
     (case fields bs of
        (fs, err) \<Rightarrow>
          (case Attack_fields \<lparr>UserId = [], UserPosition = None, AttackPosition = None\<rparr> fs of
             (err', m) \<Rightarrow> (err \<or> err', m)))"

definition put_int32 :: "byte \<Rightarrow> 32 word \<Rightarrow> byte list" where
  "put_int32 tag v = (if v = 0 then [] else tag # put_uvarint (scast v))"

definition put_bytes :: "byte \<Rightarrow> byte list \<Rightarrow> byte list" where
  "put_bytes tag b = tag # put_uvarint (of_nat (length b)) @ b"

definition marshal_Position :: "Position \<Rightarrow> byte list" where
  "marshal_Position p = put_int32 0x08 (X p) @ put_int32 0x10 (Y p)"

definition put_Position :: "byte \<Rightarrow> Position option \<Rightarrow> byte list" where
  "put_Position tag p = (case p of None \<Rightarrow> [] | Some q \<Rightarrow> put_bytes tag (marshal_Position q))"

definition proto_Marshal_Status :: marshal_Status where
  "proto_Marshal_Status m =
     (if StatusId m = [] then [] else put_bytes 0x0A (StatusId m))
       @ put_Position 0x12 (CurrentPosition m)"

definition proto_Marshal_Attack :: marshal_Attack where
  "proto_Marshal_Attack m =
     (if UserId m = [] then [] else put_bytes 0x0A (UserId m))
       @ put_Position 0x12 (UserPosition m) @ put_Position 0x1A (AttackPosition m)"

section \<open>The protocol receiver\<close>

text \<open>
  The state of a task: what it has done so far and whether it still runs. \<open>Returned\<close> and
  \<open>Panicked\<close> are reached through the deferred calls; \<open>Exited\<close> is \<open>log.Fatal\<close>, which
  ends the process without running them.
\<close>

datatype run = Running | Returned | Panicked | Exited

record task =
  trace :: "action list"
  run :: run

text \<open>The deferred \<open>sendMutualTerminationSignal()\<close>, run when a task returns or panics.\<close>

definition return_deferred :: "run \<Rightarrow> 'a task_scheme \<Rightarrow> 'a task_scheme" where
  "return_deferred r st = st\<lparr>trace := trace st @ [sendMutualTerminationSignal], run := r\<rparr>"

text \<open>
  \<open>queueBuffer.ReadBytes(delim)\<close> on a \<open>bytes.Buffer\<close> holding \<open>buf\<close>: the bytes up to and
  including the first delimiter and what stays in the buffer; without a delimiter all
  bytes, an empty buffer and the error \<open>io.EOF\<close> (the only error this call returns).
\<close>

definition ReadBytes :: "byte \<Rightarrow> byte list \<Rightarrow> byte list \<times> byte list \<times> bool" where
  "ReadBytes delim buf =
     (if delim \<in> set buf
      then (takeWhile (\<lambda>b. b \<noteq> delim) buf @ [delim], tl (dropWhile (\<lambda>b. b \<noteq> delim) buf), False)
      else (buf, [], True))"

text \<open>\<open>data[1:len(data)-1]\<close>\<close>

definition payload :: "byte list \<Rightarrow> byte list" where
  "payload data = take (length data - 2) (drop 1 data)"

text \<open>
  \<open>switch data[0]\<close>: the actions of one frame and whether the goroutine panicked. After a
  failed \<open>proto.Unmarshal\<close> the code calls \<open>sendMutualTerminationSignal()\<close> and goes on to
  build the event from the message; a nil position panics there.
\<close>

definition dispatch :: "unmarshal_Status \<Rightarrow> unmarshal_Attack \<Rightarrow> byte list \<Rightarrow> action list \<times> bool" where
  "dispatch us ua data =
     (case data of
        [] \<Rightarrow> ([], True)
      | t # _ \<Rightarrow>
          if t = PACKET_TYPE_STATUS then
            (case us (payload data) of
               (err, protoStatus) \<Rightarrow>
                 (case CurrentPosition protoStatus of
                    None \<Rightarrow> (if err then [sendMutualTerminationSignal] else [], True)
                  | Some p \<Rightarrow>
                      ((if err then [sendMutualTerminationSignal] else [])
                         @ [StatusReceiver (StatusId protoStatus) p], False)))
          else if t = PACKET_TYPE_ATTACK then
            (case ua (payload data) of
               (err, protoAttack) \<Rightarrow>
                 (case (UserPosition protoAttack, AttackPosition protoAttack) of
                    (Some p, Some q) \<Rightarrow>
                      ((if err then [sendMutualTerminationSignal] else [])
                         @ [AttackReceiver (UserId protoAttack) p q], False)
                  | _ \<Rightarrow> (if err then [sendMutualTerminationSignal] else [], True)))
          else ([], False))"

lemma ReadBytes_shorter:
  "ReadBytes d buf = (data, rest, False) \<Longrightarrow> length rest < length buf"
proof -
  assume a: "ReadBytes d buf = (data, rest, False)"
  then have m: "d \<in> set buf" and r: "rest = tl (dropWhile (\<lambda>b. b \<noteq> d) buf)"
    by (auto simp: ReadBytes_def split: if_splits)
  from m have "dropWhile (\<lambda>b. b \<noteq> d) buf \<noteq> []" by simp
  then have "length rest < length (dropWhile (\<lambda>b. b \<noteq> d) buf)"
    using r by (cases "dropWhile (\<lambda>b. b \<noteq> d) buf") auto
  also have "\<dots> \<le> length buf" by (rule length_dropWhile_le)
  finally show ?thesis .
qed

text \<open>
  The inner \<open>for\<close> loop over the accumulation buffer: what is left in the buffer, the
  actions, and whether a frame panicked. On \<open>io.EOF\<close> the partial frame is written back.
\<close>

function process_queue :: "unmarshal_Status \<Rightarrow> unmarshal_Attack \<Rightarrow> byte list \<Rightarrow> byte list \<times> action list \<times> bool" where
  "process_queue us ua buf =
     (case ReadBytes BUFFER_DELIMITER buf of
        (data, rest, eof) \<Rightarrow>
          if eof then (rest @ data, [], False)
          else (case dispatch us ua data of
                  (acts, panicked) \<Rightarrow>
                    if panicked then (rest, acts, True)
                    else (case process_queue us ua rest of
                            (buf', acts', p) \<Rightarrow> (buf', acts @ acts', p))))"
  by pat_completeness auto
termination
  by (relation "measure (\<lambda>(us, ua, buf). length buf)") (auto dest: ReadBytes_shorter [OF sym])

declare process_queue.simps [simp del]

text \<open>
  One iteration of the outer loop is one case of the \<open>select\<close>. \<open>Default chunk err\<close> is
  the default case with the result of \<open>conn.Read(buffer)\<close>: the bytes \<open>buffer[:size]\<close> and
  the error.
\<close>

datatype read_error = EOF | ReadFailed

datatype select_case = Done | ForceExit | HealthCheck | Default "byte list" "read_error option"

record receiver = task +
  queueBuffer :: "byte list"

text \<open>The default case. None of the three error branches returns.\<close>

definition read_chunk :: "unmarshal_Status \<Rightarrow> unmarshal_Attack \<Rightarrow> byte list \<Rightarrow> read_error option \<Rightarrow> receiver \<Rightarrow> receiver" where
  "read_chunk us ua chunk err st =
     (if err = Some EOF then st
      else
        let st1 = (if err \<noteq> None then st\<lparr>trace := trace st @ [sendMutualTerminationSignal]\<rparr> else st);
            st2 = (if length chunk \<ge> BUFFER_SIZE
                   then st1\<lparr>trace := trace st1 @ [sendMutualTerminationSignal]\<rparr> else st1)
        in if length chunk > 0
           then (case process_queue us ua (queueBuffer st2 @ chunk) of
                   (buf, acts, panicked) \<Rightarrow>
                     let st3 = st2\<lparr>queueBuffer := buf, trace := trace st2 @ acts\<rparr>
                     in if panicked then return_deferred Panicked st3 else st3)
           else st2)"

text \<open>
  The outer loop over the cases the \<open>select\<close> takes, in order: the four cases of the
  source, and nothing else. Which case is ready at an iteration is the environment's (the
  context, the channels, the connection), so the list is an input. A list that ends while
  the task runs leaves it waiting in the \<open>select\<close>.
\<close>

fun receive_loop :: "unmarshal_Status \<Rightarrow> unmarshal_Attack \<Rightarrow> select_case list \<Rightarrow> receiver \<Rightarrow> receiver" where
  "receive_loop us ua [] st = st"
| "receive_loop us ua (c # cs) st =
     (if run st \<noteq> Running then st
      else case c of
          Done \<Rightarrow> return_deferred Returned st
        | ForceExit \<Rightarrow> return_deferred Returned st
        | HealthCheck \<Rightarrow> receive_loop us ua cs (st\<lparr>trace := trace st @ [HealthCheckerEcho]\<rparr>)
        | Default chunk err \<Rightarrow> receive_loop us ua cs (read_chunk us ua chunk err st))"

definition accepted :: receiver where
  "accepted = \<lparr>trace = [], run = Running, queueBuffer = []\<rparr>"

text \<open>The part before the loop: each of the three calls ends the process when it fails.\<close>

datatype accept = AcceptTCP_failed | SetReadDeadline_failed | SetKeepAlive_failed | Accepted

definition ReceiveDataFromClient :: "unmarshal_Status \<Rightarrow> unmarshal_Attack \<Rightarrow> accept \<Rightarrow> select_case list \<Rightarrow> receiver" where
  "ReceiveDataFromClient us ua conn cs =
     (if conn = Accepted then receive_loop us ua cs accepted
      else \<lparr>trace = [], run = Exited, queueBuffer = []\<rparr>)"


subsection \<open>The client's side of the framing\<close>

text \<open>
  A client sends an event as one frame: the type byte, the serialized message with every
  field set, the delimiter.
\<close>

fun packet_type :: "event \<Rightarrow> byte" where
  "packet_type (Status i p) = PACKET_TYPE_STATUS"
| "packet_type (Attack i p q) = PACKET_TYPE_ATTACK"

fun serialized :: "marshal_Status \<Rightarrow> marshal_Attack \<Rightarrow> event \<Rightarrow> byte list" where
  "serialized ms ma (Status i p) = ms \<lparr>StatusId = i, CurrentPosition = Some p\<rparr>"
| "serialized ms ma (Attack i p q) = ma \<lparr>UserId = i, UserPosition = Some p, AttackPosition = Some q\<rparr>"

definition frame :: "marshal_Status \<Rightarrow> marshal_Attack \<Rightarrow> event \<Rightarrow> byte list" where
  "frame ms ma e = packet_type e # serialized ms ma e @ [BUFFER_DELIMITER]"

text \<open>A valid message: the receiver's decoder gives the message back, without error.\<close>

fun decodes :: "unmarshal_Status \<Rightarrow> unmarshal_Attack \<Rightarrow> marshal_Status \<Rightarrow> marshal_Attack \<Rightarrow> event \<Rightarrow> bool" where
  "decodes us ua ms ma (Status i p) =
     (us (serialized ms ma (Status i p)) = (False, \<lparr>StatusId = i, CurrentPosition = Some p\<rparr>))"
| "decodes us ua ms ma (Attack i p q) =
     (ua (serialized ms ma (Attack i p q))
        = (False, \<lparr>UserId = i, UserPosition = Some p, AttackPosition = Some q\<rparr>))"

fun forward :: "event \<Rightarrow> action" where
  "forward (Status i p) = StatusReceiver i p"
| "forward (Attack i p q) = AttackReceiver i p q"

text \<open>A Status event whose frame is 16 bytes long.\<close>

definition abcd_300 :: event where
  "abcd_300 = Status [0x61, 0x62, 0x63, 0x64] \<lparr>X = 300, Y = 300\<rparr>"

section \<open>The protocol sender\<close>

text \<open>
  The closure returned by \<open>CollectToSendUserRelatedDataToClient\<close>. \<open>dial\<close> is the result
  of resolving and dialling the client address. A broadcast tick is skipped when the user
  has no status; otherwise the snapshot is marshalled (an error ends the process),
  compressed and written. The snapshot itself comes from the game-state collaborators and is
  not modelled: a write leaves the entry \<open>conn_Write\<close>.
\<close>

datatype dial = ResolveFailed | DialFailed | Connected

datatype broadcast = UserStatusNil | MarshalFailed | Written | WriteFailed

datatype send_case = SendDone | StopClientSend | SendForceExit | BroadcastUpdate broadcast

record sender = task +
  faultTolerance :: int

text \<open>The branch \<open>err != nil\<close> after \<open>conn.Write\<close>.\<close>

definition write_error :: "string \<Rightarrow> sender \<Rightarrow> sender" where
  "write_error clientId st =
     (let st1 = st\<lparr>faultTolerance := faultTolerance st - 1\<rparr>
      in if faultTolerance st1 \<le> 0
         then return_deferred Panicked
                (st1\<lparr>trace := trace st1 @ [gameMap_RemoveUser clientId,
                                            userStatuses_RemoveUser clientId,
                                            scoreboard_RemoveUser clientId]\<rparr>)
         else st1)"

fun send_loop :: "string \<Rightarrow> send_case list \<Rightarrow> sender \<Rightarrow> sender" where
  "send_loop clientId [] st = st"
| "send_loop clientId (c # cs) st =
     (if run st \<noteq> Running then st
      else case c of
          SendDone \<Rightarrow> return_deferred Returned st
        | StopClientSend \<Rightarrow> return_deferred Returned st
        | SendForceExit \<Rightarrow> return_deferred Returned st
        | BroadcastUpdate b \<Rightarrow>
            (case b of
               UserStatusNil \<Rightarrow> send_loop clientId cs st
             | MarshalFailed \<Rightarrow> st\<lparr>run := Exited\<rparr>
             | Written \<Rightarrow> send_loop clientId cs (st\<lparr>trace := trace st @ [conn_Write]\<rparr>)
             | WriteFailed \<Rightarrow>
                 send_loop clientId cs (write_error clientId (st\<lparr>trace := trace st @ [conn_Write]\<rparr>))))"

definition CollectToSendUserRelatedDataToClient :: "string \<Rightarrow> dial \<Rightarrow> send_case list \<Rightarrow> sender" where
  "CollectToSendUserRelatedDataToClient clientId d cs =
     (case d of
        ResolveFailed \<Rightarrow> \<lparr>trace = [], run = Exited, faultTolerance = 0\<rparr>
      | DialFailed \<Rightarrow> return_deferred Panicked \<lparr>trace = [], run = Running, faultTolerance = 0\<rparr>
      | Connected \<Rightarrow> send_loop clientId cs \<lparr>trace = [], run = Running, faultTolerance = 100\<rparr>)"

text \<open>The three \<open>RemoveUser\<close> calls, the failed writes of a run, and a run of ticks only.\<close>

fun deregistration :: "action \<Rightarrow> bool" where
  "deregistration (gameMap_RemoveUser u) = True"
| "deregistration (userStatuses_RemoveUser u) = True"
| "deregistration (scoreboard_RemoveUser u) = True"
| "deregistration a = False"

definition write_failures :: "send_case list \<Rightarrow> nat" where
  "write_failures cs = length (filter (\<lambda>c. c = BroadcastUpdate WriteFailed) cs)"

fun broadcast_only :: "send_case \<Rightarrow> bool" where
  "broadcast_only (BroadcastUpdate b) = (b \<noteq> MarshalFailed)"
| "broadcast_only c = False"

section \<open>The event processor\<close>

text \<open>
  \<open>ProcessIncoming\<close>, one case of its \<open>select\<close> per list element. The deferred call is
  \<open>sendMutualTerminationSignal(mutualTerminationSignal)\<close>.
\<close>

datatype process_case =
    statusReceiver protodef_Status
  | ProcessForceExit
  | ProcessHealthCheck
  | mutualTerminationSignal

record processor = task +
  worker :: Worker

fun ProcessIncoming :: "process_case list \<Rightarrow> processor \<Rightarrow> processor" where
  "ProcessIncoming [] st = st"
| "ProcessIncoming (c # cs) st =
     (if run st \<noteq> Running then st
      else case c of
          statusReceiver s \<Rightarrow>
            (case CurrentPosition s of
               None \<Rightarrow> return_deferred Panicked st
             | Some p \<Rightarrow>
                 ProcessIncoming cs (st\<lparr>trace := trace st @ [UpdateUserPosition (StatusId s) p]\<rparr>))
        | ProcessForceExit \<Rightarrow> return_deferred Panicked st
        | ProcessHealthCheck \<Rightarrow> ProcessIncoming cs (st\<lparr>trace := trace st @ [HealthCheckerEcho]\<rparr>)
        | mutualTerminationSignal \<Rightarrow>
            return_deferred Returned (st\<lparr>worker := (worker st)\<lparr>status := TERMINATED\<rparr>\<rparr>))"

section \<open>The HTTP server\<close>

text \<open>
  Modelled from the spec: the package \<open>worker_pool\<close> with the pool, \<open>Pull\<close> and
  \<open>GetAvailableWorkerCount\<close> is not under src/. Specification, section 4.1: the pool is a
  registry of session slots; \<open>AvailableCount\<close> is the number of available slots;
  \<open>Pull\<close> returns an available slot, moves it to PULLED_OUT and removes it from the
  available set, and fails when no slot is available. \<open>Pool\<close> holds the available slots
  (the panic message of \<open>NewServer\<close> prints \<open>len(workerPool.Pool)\<close> as the initialized
  count).
\<close>

record WorkerPool =
  Pool :: "Worker list"

definition GetAvailableWorkerCount :: "WorkerPool \<Rightarrow> int" where
  "GetAvailableWorkerCount wp = int (length (Pool wp))"

definition Pull :: "WorkerPool \<Rightarrow> (Worker \<times> WorkerPool) option" where
  "Pull wp =
     (case Pool wp of
        [] \<Rightarrow> None
      | w # ws \<Rightarrow> Some (w\<lparr>status := PULLED_OUT\<rparr>, wp\<lparr>Pool := ws\<rparr>))"

text \<open>
  \<open>NewServer\<close> up to the construction of the mux. \<open>WORKER_COUNT\<close> and \<open>LaunchWorkers\<close>
  (the task package) are parameters. The panic carries the two numbers of its message. The
  health check, the map and the coins are the collaborators' and are left out; the
  scoreboard starts empty.
\<close>

datatype panic = worker_pool_initialization_failed int int

record Server =
  workerPool :: WorkerPool
  Scoreboard :: "string \<rightharpoonup> int"

definition NewServer :: "int \<Rightarrow> (int \<Rightarrow> WorkerPool) \<Rightarrow> panic + Server" where
  "NewServer WORKER_COUNT LaunchWorkers =
     (let workerPool = LaunchWorkers WORKER_COUNT
      in if GetAvailableWorkerCount workerPool \<noteq> WORKER_COUNT
         then Inl (worker_pool_initialization_failed (int (length (Pool workerPool))) WORKER_COUNT)
         else Inr \<lparr>workerPool = workerPool, Scoreboard = Map.empty\<rparr>)"

text \<open>\<open>fmt.Sprintf("%d", i)\<close>\<close>

fun decimal :: "nat \<Rightarrow> string" where
  "decimal n =
     (if n < 10 then [''0123456789'' ! n]
      else decimal (n div 10) @ [''0123456789'' ! (n mod 10)])"

declare decimal.simps [simp del]

definition Sprintf_d :: "int \<Rightarrow> string" where
  "Sprintf_d i = (if i < 0 then CHR ''-'' # decimal (nat (- i)) else decimal (nat i))"

text \<open>
  The handler of \<open>GET /get-worker-port/{userId}/{clientPort}\<close>. The request carries the
  results of \<open>strconv.Atoi\<close> on the port (\<open>None\<close> is an error) and of \<open>net.ParseIP\<close> on
  the remote address (\<open>None\<close> is nil). \<open>pull\<close> is the pool's \<open>Pull\<close>. The result is
  the response, the worker as the two method calls leave it, and the server state. The
  error results of the two calls are dropped, as in the code.
\<close>

record Request =
  userId :: string
  clientPort :: "int option"
  RemoteIP :: "IP option"

record Response =
  StatusCode :: nat
  ContentType :: string
  Body :: string

definition get_worker_port ::
  "(WorkerPool \<Rightarrow> (Worker \<times> WorkerPool) option) \<Rightarrow> Request \<Rightarrow> Server \<Rightarrow> Response \<times> Worker option \<times> Server" where
  "get_worker_port pull r srv =
     (case (RemoteIP r, clientPort r) of
        (Some clientIP, Some port) \<Rightarrow>
          if userId r = []
          then (\<lparr>StatusCode = 400, ContentType = ''text/plain'', Body = ''client information invalid''\<rparr>,
                None, srv)
          else (case pull (workerPool srv) of
                  None \<Rightarrow>
                    (\<lparr>StatusCode = 409, ContentType = ''text/plain'',
                      Body = ''worker currently not available''\<rparr>, None, srv)
                | Some (pulled, pool) \<Rightarrow>
                    let w1 = snd (SetClientInformation (userId r) (Some clientIP) port pulled);
                        w2 = snd (StartSendUserRelatedDataToClient w1)
                    in (\<lparr>StatusCode = 200, ContentType = ''text/plain'', Body = Sprintf_d (Port pulled)\<rparr>,
                        Some w2,
                        srv\<lparr>workerPool := pool, Scoreboard := (Scoreboard srv)(userId r \<mapsto> 0)\<rparr>))
      | _ \<Rightarrow>
          (\<lparr>StatusCode = 400, ContentType = ''text/plain'', Body = ''client information invalid''\<rparr>,
           None, srv))"

text \<open>Definitions to unfold when a term is evaluated.\<close>

lemmas codec_defs =
  proto_Unmarshal_Status_def proto_Unmarshal_Attack_def proto_Marshal_Status_def
  proto_Marshal_Attack_def put_bytes_def put_Position_def marshal_Position_def put_int32_def
  put_uvarint_def varint_bytes.simps consume_field_def merge_Position_def unmarshal_Position_def
  set_Position_field_def

lemmas receiver_defs =
  ReceiveDataFromClient_def read_chunk_def return_deferred_def accepted_def process_queue.simps
  ReadBytes_def dispatch_def payload_def BUFFER_SIZE_def BUFFER_DELIMITER_def
  PACKET_TYPE_STATUS_def PACKET_TYPE_ATTACK_def

section \<open>Properties of the state machine\<close>

text \<open>
  C3. \<open>SetClientInformation\<close> on a slot whose status is not \<open>PULLED_OUT\<close> returns the
  invalid-state error, sends one force-exit signal and leaves owner, client IP, client port
  and status as they were; on a slot in \<open>PULLED_OUT\<close> it returns no error, stores the
  three values and moves the status to \<open>CLIENT_INFORMATION_RECEIVED\<close>.
\<close>

theorem SetClientInformation_state_machine:
  "(status w \<noteq> PULLED_OUT \<longrightarrow>
      (\<exists>e. fst (SetClientInformation u ip p w) = Some (InvalidStateError e))
      \<and> ForceExitSignal (snd (SetClientInformation u ip p w)) = Suc (ForceExitSignal w)
      \<and> OwnerUserID (snd (SetClientInformation u ip p w)) = OwnerUserID w
      \<and> ClientIP (snd (SetClientInformation u ip p w)) = ClientIP w
      \<and> ClientPort (snd (SetClientInformation u ip p w)) = ClientPort w
      \<and> status (snd (SetClientInformation u ip p w)) = status w)
   \<and> (status w = PULLED_OUT \<longrightarrow>
      fst (SetClientInformation u ip p w) = None
      \<and> OwnerUserID (snd (SetClientInformation u ip p w)) = u
      \<and> ClientIP (snd (SetClientInformation u ip p w)) = ip
      \<and> ClientPort (snd (SetClientInformation u ip p w)) = p
      \<and> status (snd (SetClientInformation u ip p w)) = CLIENT_INFORMATION_RECEIVED
      \<and> ForceExitSignal (snd (SetClientInformation u ip p w)) = ForceExitSignal w)"
  by (simp add: SetClientInformation_def GetStatus_def ChangeStatus_def send_ForceExitSignal_def)

text \<open>The call on a slot that is already working, and on a slot fresh from the pool.\<close>

theorem SetClientInformation_state_machine_witness:
  "status (pulled_worker\<lparr>status := WORKING\<rparr>) \<noteq> PULLED_OUT
   \<and> SetClientInformation ''user0'' (Some [127, 0, 0, 1]) 40000 (pulled_worker\<lparr>status := WORKING\<rparr>)
       = (Some (InvalidStateError WORKER_STATUS_NOT_IDLE),
          pulled_worker\<lparr>status := WORKING, ForceExitSignal := 1\<rparr>)
   \<and> status pulled_worker = PULLED_OUT
   \<and> SetClientInformation ''user0'' (Some [127, 0, 0, 1]) 40000 pulled_worker
       = (None, pulled_worker\<lparr>status := CLIENT_INFORMATION_RECEIVED, OwnerUserID := ''user0'',
                               ClientIP := Some [127, 0, 0, 1], ClientPort := 40000\<rparr>)"
  using SetClientInformation_state_machine
          [of "pulled_worker\<lparr>status := WORKING\<rparr>" "''user0''" "Some [127, 0, 0, 1]" 40000]
        SetClientInformation_state_machine
          [of pulled_worker "''user0''" "Some [127, 0, 0, 1]" 40000]
  by (simp add: SetClientInformation_def GetStatus_def ChangeStatus_def send_ForceExitSignal_def
        pulled_worker_def)

text \<open>
  C4. \<open>StartSendUserRelatedDataToClient\<close> on a slot in \<open>CLIENT_INFORMATION_RECEIVED\<close>
  with a send routine registered returns no error, moves the status to \<open>WORKING\<close> and
  starts the send routine with the slot's owner and client address; whenever the slot is in
  another status, or has no send routine, it returns the invalid-state error, sends one
  force-exit signal, starts nothing and leaves the status as it was.
\<close>

theorem StartSend_guard:
  "(status w = CLIENT_INFORMATION_RECEIVED \<and> SendUserRelatedDataToClient w \<longrightarrow>
      fst (StartSendUserRelatedDataToClient w) = None
      \<and> status (snd (StartSendUserRelatedDataToClient w)) = WORKING
      \<and> started (snd (StartSendUserRelatedDataToClient w))
          = started w @ [SendRoutine (OwnerUserID w) (ClientIP w) (ClientPort w)]
      \<and> ForceExitSignal (snd (StartSendUserRelatedDataToClient w)) = ForceExitSignal w)
   \<and> (status w \<noteq> CLIENT_INFORMATION_RECEIVED \<or> \<not> SendUserRelatedDataToClient w \<longrightarrow>
      (\<exists>e. fst (StartSendUserRelatedDataToClient w) = Some (InvalidStateError e))
      \<and> ForceExitSignal (snd (StartSendUserRelatedDataToClient w)) = Suc (ForceExitSignal w)
      \<and> status (snd (StartSendUserRelatedDataToClient w)) = status w
      \<and> started (snd (StartSendUserRelatedDataToClient w)) = started w)"
  by (simp add: StartSendUserRelatedDataToClient_def GetStatus_def ChangeStatus_def
        send_ForceExitSignal_def)

text \<open>The call after the client information, straight after the pull, and without a routine.\<close>

theorem StartSend_guard_witness:
  "StartSendUserRelatedDataToClient
       (pulled_worker\<lparr>status := CLIENT_INFORMATION_RECEIVED, OwnerUserID := ''user0'',
                       ClientIP := Some [127, 0, 0, 1], ClientPort := 40000\<rparr>)
     = (None, pulled_worker\<lparr>status := WORKING, OwnerUserID := ''user0'',
                ClientIP := Some [127, 0, 0, 1], ClientPort := 40000,
                started := [SendRoutine ''user0'' (Some [127, 0, 0, 1]) 40000]\<rparr>)
   \<and> StartSendUserRelatedDataToClient pulled_worker
     = (Some (InvalidStateError WORKER_STATUS_NOT_CLIENT_INFORMATION_RECEIVED),
        pulled_worker\<lparr>ForceExitSignal := 1\<rparr>)
   \<and> StartSendUserRelatedDataToClient
       (pulled_worker\<lparr>status := CLIENT_INFORMATION_RECEIVED, SendUserRelatedDataToClient := False\<rparr>)
     = (Some (InvalidStateError NO_MANDATORY_PROPERTY_SendUserRelatedDataToClient),
        pulled_worker\<lparr>status := CLIENT_INFORMATION_RECEIVED, SendUserRelatedDataToClient := False,
                       ForceExitSignal := 1\<rparr>)"
  using StartSend_guard
          [of "pulled_worker\<lparr>status := CLIENT_INFORMATION_RECEIVED, OwnerUserID := ''user0'',
                              ClientIP := Some [127, 0, 0, 1], ClientPort := 40000\<rparr>"]
        StartSend_guard [of pulled_worker]
        StartSend_guard
          [of "pulled_worker\<lparr>status := CLIENT_INFORMATION_RECEIVED,
                              SendUserRelatedDataToClient := False\<rparr>"]
  by (simp add: StartSendUserRelatedDataToClient_def GetStatus_def ChangeStatus_def
        send_ForceExitSignal_def pulled_worker_def)

section \<open>Properties of the receiver\<close>

subsection \<open>The accumulation buffer\<close>

lemma ReadBytes_frame:
  "d \<notin> set f \<Longrightarrow> ReadBytes d (f @ d # rest) = (f @ [d], rest, False)"
proof -
  assume n: "d \<notin> set f"
  then have all: "\<forall>x\<in>set f. x \<noteq> d" by auto
  have t: "takeWhile (\<lambda>b. b \<noteq> d) (f @ d # rest) = f"
    using all by (simp add: takeWhile_tail)
  have dr: "dropWhile (\<lambda>b. b \<noteq> d) (f @ d # rest) = d # rest"
    using all by (simp add: dropWhile_append3)
  show ?thesis
    unfolding ReadBytes_def t dr by simp
qed

lemma first_delimiter:
  assumes "d \<in> set buf"
  obtains f rest where "buf = f @ d # rest" and "d \<notin> set f"
  using assms by (meson split_list_first)

lemma process_queue_no_delim:
  "BUFFER_DELIMITER \<notin> set buf \<Longrightarrow> process_queue us ua buf = (buf, [], False)"
  by (subst process_queue.simps) (simp add: ReadBytes_def)

lemma process_queue_frame:
  "BUFFER_DELIMITER \<notin> set f \<Longrightarrow>
   process_queue us ua (f @ BUFFER_DELIMITER # rest) =
     (case dispatch us ua (f @ [BUFFER_DELIMITER]) of
        (acts, panicked) \<Rightarrow>
          if panicked then (rest, acts, True)
          else (case process_queue us ua rest of (buf', acts', p) \<Rightarrow> (buf', acts @ acts', p)))"
  by (subst process_queue.simps) (simp add: ReadBytes_frame)

text \<open>Reading a buffer in two parts gives what reading it at once gives.\<close>

lemma process_queue_append:
  "process_queue us ua (a @ b) =
     (case process_queue us ua a of
        (l, acts, panicked) \<Rightarrow>
          if panicked then (l @ b, acts, True)
          else (case process_queue us ua (l @ b) of (l', acts', p) \<Rightarrow> (l', acts @ acts', p)))"
proof (induction a rule: length_induct)
  case (1 a)
  show ?case
  proof (cases "BUFFER_DELIMITER \<in> set a")
    case False
    then show ?thesis
      by (cases "process_queue us ua (a @ b)") (simp add: process_queue_no_delim)
  next
    case True
    then obtain f rest where a: "a = f @ BUFFER_DELIMITER # rest" and f: "BUFFER_DELIMITER \<notin> set f"
      by (rule first_delimiter)
    have ih: "process_queue us ua (rest @ b) =
       (case process_queue us ua rest of
          (l, acts, panicked) \<Rightarrow>
            if panicked then (l @ b, acts, True)
            else (case process_queue us ua (l @ b) of (l', acts', p) \<Rightarrow> (l', acts @ acts', p)))"
      using "1.IH" a by simp
    have ab: "a @ b = f @ BUFFER_DELIMITER # (rest @ b)" using a by simp
    show ?thesis
      unfolding ab unfolding a
      by (simp only: process_queue_frame [OF f] ih)
         (auto split: prod.splits if_splits)
  qed
qed

lemma process_queue_leftover:
  "process_queue us ua buf = (l, acts, False) \<Longrightarrow> BUFFER_DELIMITER \<notin> set l"
proof (induction buf arbitrary: l acts rule: length_induct)
  case (1 buf)
  show ?case
  proof (cases "BUFFER_DELIMITER \<in> set buf")
    case False
    with "1.prems" show ?thesis by (simp add: process_queue_no_delim)
  next
    case True
    then obtain f rest where b: "buf = f @ BUFFER_DELIMITER # rest" and f: "BUFFER_DELIMITER \<notin> set f"
      by (rule first_delimiter)
    from "1.prems" obtain acts' where "process_queue us ua rest = (l, acts', False)"
      unfolding b by (auto simp: process_queue_frame [OF f] split: prod.splits if_splits)
    moreover have "length rest < length buf" using b by simp
    ultimately show ?thesis using "1.IH" by blast
  qed
qed

lemma dispatch_frame:
  assumes "decodes us ua ms ma e"
  shows "dispatch us ua (frame ms ma e) = ([forward e], False)"
proof (cases e)
  case (Status i p)
  then show ?thesis
    using assms
    by (simp add: dispatch_def frame_def payload_def PACKET_TYPE_STATUS_def)
next
  case (Attack i p q)
  then show ?thesis
    using assms
    by (simp add: dispatch_def frame_def payload_def PACKET_TYPE_STATUS_def PACKET_TYPE_ATTACK_def)
qed

lemma process_queue_frames:
  assumes "\<forall>e\<in>set events. decodes us ua ms ma e"
    and "\<forall>e\<in>set events. BUFFER_DELIMITER \<notin> set (serialized ms ma e)"
  shows "process_queue us ua (concat (map (frame ms ma) events)) = ([], map forward events, False)"
  using assms
proof (induction events)
  case Nil
  then show ?case by (simp add: process_queue_no_delim)
next
  case (Cons e events)
  have t: "packet_type e \<noteq> BUFFER_DELIMITER"
    by (cases e) (simp_all add: PACKET_TYPE_STATUS_def PACKET_TYPE_ATTACK_def BUFFER_DELIMITER_def)
  have f: "BUFFER_DELIMITER \<notin> set (packet_type e # serialized ms ma e)"
    using Cons.prems(2) t by auto
  have d: "dispatch us ua ((packet_type e # serialized ms ma e) @ [BUFFER_DELIMITER]) = ([forward e], False)"
    using dispatch_frame [of us ua ms ma e] Cons.prems(1) by (simp add: frame_def)
  have ih: "process_queue us ua (concat (map (frame ms ma) events)) = ([], map forward events, False)"
    using Cons by simp
  have "concat (map (frame ms ma) (e # events))
      = (packet_type e # serialized ms ma e) @ BUFFER_DELIMITER # concat (map (frame ms ma) events)"
    by (simp add: frame_def)
  then show ?case
    by (simp only: process_queue_frame [OF f] d ih) simp
qed

text \<open>
  Reads shorter than the buffer, without error: the loop does to the chunks what the inner
  loop does to their concatenation.
\<close>

lemma receive_chunks:
  assumes "run st = Running"
    and "sendMutualTerminationSignal \<notin> set (trace st)"
    and "\<forall>c\<in>set chunks. length c < BUFFER_SIZE"
    and "process_queue us ua (queueBuffer st @ concat chunks) = (l, acts, False)"
    and "sendMutualTerminationSignal \<notin> set acts"
    and "BUFFER_DELIMITER \<notin> set (queueBuffer st)"
  shows "receive_loop us ua (map (\<lambda>c. Default c None) chunks) st
           = st\<lparr>queueBuffer := l, trace := trace st @ acts\<rparr>"
  using assms
proof (induction chunks arbitrary: st acts)
  case Nil
  then show ?case by (simp add: process_queue_no_delim)
next
  case (Cons c chunks)
  show ?case
  proof (cases "c = []")
    case True
    then have "read_chunk us ua c None st = st"
      by (simp add: read_chunk_def BUFFER_SIZE_def)
    with Cons True show ?thesis by simp
  next
    case False
    obtain l1 a1 p1 where q1: "process_queue us ua (queueBuffer st @ c) = (l1, a1, p1)"
      by (cases "process_queue us ua (queueBuffer st @ c)") auto
    have whole: "process_queue us ua ((queueBuffer st @ c) @ concat chunks) = (l, acts, False)"
      using Cons.prems(4) by simp
    from whole q1 have p1: "\<not> p1"
      by (subst (asm) process_queue_append) (auto split: prod.splits if_splits)
    from whole q1 p1 obtain a2 where q2: "process_queue us ua (l1 @ concat chunks) = (l, a2, False)"
      and acts: "acts = a1 @ a2"
      by (subst (asm) process_queue_append) (auto split: prod.splits if_splits)
    let ?st' = "st\<lparr>queueBuffer := l1, trace := trace st @ a1\<rparr>"
    have rc: "read_chunk us ua c None st = ?st'"
      using False Cons.prems(3) q1 p1 by (simp add: read_chunk_def)
    have l1: "BUFFER_DELIMITER \<notin> set l1"
      using q1 p1 by (auto dest: process_queue_leftover)
    have "receive_loop us ua (map (\<lambda>c. Default c None) chunks) ?st'
            = ?st'\<lparr>queueBuffer := l, trace := trace ?st' @ a2\<rparr>"
      using Cons.prems q2 acts l1 by (intro Cons.IH) auto
    then show ?thesis
      using Cons.prems(1,2) rc acts by simp
  qed
qed

lemma frame_abcd_300:
  "frame proto_Marshal_Status proto_Marshal_Attack abcd_300
     = [0x00, 0x0A, 0x04, 0x61, 0x62, 0x63, 0x64, 0x12, 0x06, 0x08, 0xAC, 0x02, 0x10, 0xAC, 0x02, 0x24]"
  by (simp add: abcd_300_def codec_defs frame_def PACKET_TYPE_STATUS_def BUFFER_DELIMITER_def)

subsection \<open>Framing\<close>

text \<open>
  C1, as the code has it. For every sequence of valid Status and Attack messages whose
  serialized payloads contain no delimiter byte, each framed as type byte, payload and
  delimiter, the frames concatenated and cut into reads that are each shorter than the
  buffer of 4096 bytes: the receiver forwards exactly the events of the messages, in
  order, signals no termination, keeps running and ends with an empty accumulation buffer.
\<close>

theorem framing_round_trip:
  assumes "\<forall>e\<in>set events. decodes us ua ms ma e"
    and "\<forall>e\<in>set events. BUFFER_DELIMITER \<notin> set (serialized ms ma e)"
    and "concat chunks = concat (map (frame ms ma) events)"
    and "\<forall>c\<in>set chunks. length c < BUFFER_SIZE"
  shows "ReceiveDataFromClient us ua Accepted (map (\<lambda>c. Default c None) chunks)
           = \<lparr>trace = map forward events, run = Running, queueBuffer = []\<rparr>"
proof -
  have q: "process_queue us ua (queueBuffer accepted @ concat chunks) = ([], map forward events, False)"
    using process_queue_frames [OF assms(1,2)] assms(3) by (simp add: accepted_def)
  have n: "sendMutualTerminationSignal \<notin> set (map forward events)"
  proof
    assume "sendMutualTerminationSignal \<in> set (map forward events)"
    then obtain e where "sendMutualTerminationSignal = forward e" by auto
    then show False by (cases e) simp_all
  qed
  have "receive_loop us ua (map (\<lambda>c. Default c None) chunks) accepted
          = accepted\<lparr>queueBuffer := [], trace := trace accepted @ map forward events\<rparr>"
    using assms(4) q n by (intro receive_chunks) (simp_all add: accepted_def)
  then show ?thesis by (simp add: accepted_def ReceiveDataFromClient_def)
qed

text \<open>
  A Status and an Attack message in the protocol-buffers encoding, 28 bytes in three reads
  that cut both frames.
\<close>

theorem framing_round_trip_witness:
  "ReceiveDataFromClient proto_Unmarshal_Status proto_Unmarshal_Attack Accepted
     [Default [0x00, 0x0A, 0x02, 0x61, 0x62] None,
      Default [0x12, 0x05, 0x08, 0x05, 0x10, 0xAC, 0x02, 0x24, 0x01, 0x0A, 0x02, 0x61] None,
      Default [0x62, 0x12, 0x05, 0x08, 0x07, 0x10, 0xAC, 0x02, 0x1A, 0x00, 0x24] None]
   = \<lparr>trace = [StatusReceiver [0x61, 0x62] \<lparr>X = 5, Y = 300\<rparr>,
               AttackReceiver [0x61, 0x62] \<lparr>X = 7, Y = 300\<rparr> \<lparr>X = 0, Y = 0\<rparr>],
      run = Running,
      queueBuffer = []\<rparr>"
  using framing_round_trip
    [of "[Status [0x61, 0x62] \<lparr>X = 5, Y = 300\<rparr>,
          Attack [0x61, 0x62] \<lparr>X = 7, Y = 300\<rparr> \<lparr>X = 0, Y = 0\<rparr>]"
        proto_Unmarshal_Status proto_Unmarshal_Attack proto_Marshal_Status proto_Marshal_Attack
        "[[0x00, 0x0A, 0x02, 0x61, 0x62],
          [0x12, 0x05, 0x08, 0x05, 0x10, 0xAC, 0x02, 0x24, 0x01, 0x0A, 0x02, 0x61],
          [0x62, 0x12, 0x05, 0x08, 0x07, 0x10, 0xAC, 0x02, 0x1A, 0x00, 0x24]]"]
  by (simp add: codec_defs frame_def BUFFER_SIZE_def BUFFER_DELIMITER_def PACKET_TYPE_STATUS_def
        PACKET_TYPE_ATTACK_def)

text \<open>
  C1 as stated fails in two ways. A valid Status message of a user at x = 36 has the byte
  0x24 in its payload: the receiver cuts the frame there, the decoder rejects the first
  half, and the goroutine panics on the missing position; no event is forwarded. And 256
  valid frames of 16 bytes arriving in one read fill the buffer: the receiver forwards
  them but fires the termination signal in the middle of the valid stream. When the
  \<open>select\<close> then takes the case of the context, the receiver returns and the frame after
  them is never read; if it reads on, the frame is forwarded in a session that is being
  torn down.
\<close>

theorem framing_round_trip_counterexample:
  "decodes proto_Unmarshal_Status proto_Unmarshal_Attack proto_Marshal_Status proto_Marshal_Attack
     (Status [0x61, 0x62] \<lparr>X = 36, Y = 2\<rparr>)
   \<and> frame proto_Marshal_Status proto_Marshal_Attack (Status [0x61, 0x62] \<lparr>X = 36, Y = 2\<rparr>)
       = [0x00, 0x0A, 0x02, 0x61, 0x62, 0x12, 0x04, 0x08, 0x24, 0x10, 0x02, 0x24]
   \<and> ReceiveDataFromClient proto_Unmarshal_Status proto_Unmarshal_Attack Accepted
       [Default [0x00, 0x0A, 0x02, 0x61, 0x62, 0x12, 0x04, 0x08, 0x24, 0x10, 0x02, 0x24] None]
     = \<lparr>trace = [sendMutualTerminationSignal, sendMutualTerminationSignal],
        run = Panicked,
        queueBuffer = [0x10, 0x02, 0x24]\<rparr>
   \<and> decodes proto_Unmarshal_Status proto_Unmarshal_Attack proto_Marshal_Status proto_Marshal_Attack
       abcd_300
   \<and> length (concat (replicate 256 (frame proto_Marshal_Status proto_Marshal_Attack abcd_300)))
       = BUFFER_SIZE
   \<and> ReceiveDataFromClient proto_Unmarshal_Status proto_Unmarshal_Attack Accepted
       [Default (concat (replicate 256 (frame proto_Marshal_Status proto_Marshal_Attack abcd_300))) None,
        Done,
        Default (frame proto_Marshal_Status proto_Marshal_Attack abcd_300) None]
     = \<lparr>trace = sendMutualTerminationSignal # replicate 256 (forward abcd_300)
                 @ [sendMutualTerminationSignal],
        run = Returned, queueBuffer = []\<rparr>
   \<and> ReceiveDataFromClient proto_Unmarshal_Status proto_Unmarshal_Attack Accepted
       [Default (concat (replicate 256 (frame proto_Marshal_Status proto_Marshal_Attack abcd_300))) None,
        Default (frame proto_Marshal_Status proto_Marshal_Attack abcd_300) None]
     = \<lparr>trace = sendMutualTerminationSignal # replicate 256 (forward abcd_300)
                 @ [forward abcd_300],
        run = Running, queueBuffer = []\<rparr>"
proof -
  let ?f = "frame proto_Marshal_Status proto_Marshal_Attack abcd_300"
  have first: "decodes proto_Unmarshal_Status proto_Unmarshal_Attack proto_Marshal_Status
                 proto_Marshal_Attack (Status [0x61, 0x62] \<lparr>X = 36, Y = 2\<rparr>)
   \<and> frame proto_Marshal_Status proto_Marshal_Attack (Status [0x61, 0x62] \<lparr>X = 36, Y = 2\<rparr>)
       = [0x00, 0x0A, 0x02, 0x61, 0x62, 0x12, 0x04, 0x08, 0x24, 0x10, 0x02, 0x24]
   \<and> ReceiveDataFromClient proto_Unmarshal_Status proto_Unmarshal_Attack Accepted
       [Default [0x00, 0x0A, 0x02, 0x61, 0x62, 0x12, 0x04, 0x08, 0x24, 0x10, 0x02, 0x24] None]
     = \<lparr>trace = [sendMutualTerminationSignal, sendMutualTerminationSignal],
        run = Panicked,
        queueBuffer = [0x10, 0x02, 0x24]\<rparr>"
    by (simp add: codec_defs receiver_defs frame_def)
  have d: "decodes proto_Unmarshal_Status proto_Unmarshal_Attack proto_Marshal_Status
             proto_Marshal_Attack abcd_300"
    by (simp add: abcd_300_def codec_defs)
  have n: "BUFFER_DELIMITER \<notin> set (serialized proto_Marshal_Status proto_Marshal_Attack abcd_300)"
    by (simp add: abcd_300_def codec_defs BUFFER_DELIMITER_def)
  have len: "length (concat (replicate 256 ?f)) = BUFFER_SIZE"
    by (simp add: frame_abcd_300 length_concat sum_list_replicate BUFFER_SIZE_def)
  have lenf: "length ?f = 16"
    by (simp add: frame_abcd_300)
  have "process_queue proto_Unmarshal_Status proto_Unmarshal_Attack
          (concat (map (frame proto_Marshal_Status proto_Marshal_Attack) (replicate 256 abcd_300)))
        = ([], map forward (replicate 256 abcd_300), False)"
    by (rule process_queue_frames) (use d n in simp_all)
  then have q: "process_queue proto_Unmarshal_Status proto_Unmarshal_Attack (concat (replicate 256 ?f))
        = ([], replicate 256 (forward abcd_300), False)"
    by (simp only: map_replicate)
  have "process_queue proto_Unmarshal_Status proto_Unmarshal_Attack
          (concat (map (frame proto_Marshal_Status proto_Marshal_Attack) [abcd_300]))
        = ([], map forward [abcd_300], False)"
    by (rule process_queue_frames) (use d n in simp_all)
  then have q1: "process_queue proto_Unmarshal_Status proto_Unmarshal_Attack ?f
        = ([], [forward abcd_300], False)"
    by simp
  let ?st1 = "\<lparr>trace = sendMutualTerminationSignal # replicate 256 (forward abcd_300),
           run = Running, queueBuffer = []\<rparr>"
  have rc: "read_chunk proto_Unmarshal_Status proto_Unmarshal_Attack (concat (replicate 256 ?f)) None accepted
        = ?st1"
    unfolding read_chunk_def using len q
    by (simp add: accepted_def BUFFER_SIZE_def Let_def)
  have rc1: "read_chunk proto_Unmarshal_Status proto_Unmarshal_Attack ?f None ?st1
        = \<lparr>trace = sendMutualTerminationSignal # replicate 256 (forward abcd_300) @ [forward abcd_300],
           run = Running, queueBuffer = []\<rparr>"
    unfolding read_chunk_def using lenf q1
    by (simp add: BUFFER_SIZE_def Let_def)
  have returned: "receive_loop proto_Unmarshal_Status proto_Unmarshal_Attack
          [Default (concat (replicate 256 ?f)) None, Done, Default ?f None] accepted
        = \<lparr>trace = sendMutualTerminationSignal # replicate 256 (forward abcd_300)
                 @ [sendMutualTerminationSignal],
        run = Returned, queueBuffer = []\<rparr>"
    by (simp add: rc) (simp add: accepted_def return_deferred_def)
  have read_on: "receive_loop proto_Unmarshal_Status proto_Unmarshal_Attack
          [Default (concat (replicate 256 ?f)) None, Default ?f None] accepted
        = \<lparr>trace = sendMutualTerminationSignal # replicate 256 (forward abcd_300)
                 @ [forward abcd_300],
        run = Running, queueBuffer = []\<rparr>"
    by (simp add: rc rc1) (simp add: accepted_def)
  from first d len returned read_on show ?thesis
    by (simp only: ReceiveDataFromClient_def simp_thms if_True)
qed

subsection \<open>Oversized frames\<close>







subsection \<open>Failures\<close>

text \<open>
  C6. One read carries a Status frame whose payload does not decode (the position is read,
  then a string that is longer than the payload) and a valid Status frame. The decoder
  reports the error and leaves the position in the message. The receiver signals
  termination, then forwards an event built from the half-decoded message, then decodes
  and forwards the second frame: it does process the stream after the decode failure.
\<close>

theorem decode_failure_continues:
  "proto_Unmarshal_Status [0x12, 0x02, 0x08, 0x01, 0x0A, 0x05, 0x61]
     = (True, \<lparr>StatusId = [], CurrentPosition = Some \<lparr>X = 1, Y = 0\<rparr>\<rparr>)
   \<and> ReceiveDataFromClient proto_Unmarshal_Status proto_Unmarshal_Attack Accepted
        [Default [0x00, 0x12, 0x02, 0x08, 0x01, 0x0A, 0x05, 0x61, 0x24,
                  0x00, 0x0A, 0x02, 0x61, 0x62, 0x12, 0x05, 0x08, 0x05, 0x10, 0xAC, 0x02, 0x24] None]
      = \<lparr>trace = [sendMutualTerminationSignal,
                  StatusReceiver [] \<lparr>X = 1, Y = 0\<rparr>,
                  StatusReceiver [0x61, 0x62] \<lparr>X = 5, Y = 300\<rparr>],
         run = Running,
         queueBuffer = []\<rparr>"
  by (simp add: codec_defs receiver_defs)

subsection \<open>Unknown packet types\<close>

text \<open>
  C9. A complete frame (the bytes up to and including the first delimiter) whose first
  byte is neither 0 nor 1, the frame of the delimiter alone included, is dropped: it
  yields no action and no panic, the inner loop goes on with the bytes after it, and a read
  that brings only such a frame into an empty buffer leaves the receiver as it was.
\<close>

theorem unknown_packet_type_discarded:
  assumes "BUFFER_DELIMITER \<notin> set f"
    and "take 1 f \<noteq> [PACKET_TYPE_STATUS]" and "take 1 f \<noteq> [PACKET_TYPE_ATTACK]"
  shows "dispatch us ua (f @ [BUFFER_DELIMITER]) = ([], False)
         \<and> process_queue us ua (f @ BUFFER_DELIMITER # rest) = process_queue us ua rest
         \<and> (queueBuffer st = [] \<and> length (f @ [BUFFER_DELIMITER]) < BUFFER_SIZE \<longrightarrow>
              read_chunk us ua (f @ [BUFFER_DELIMITER]) None st = st)"
proof -
  have d: "dispatch us ua (f @ [BUFFER_DELIMITER]) = ([], False)"
    using assms(2,3)
    by (cases f)
       (simp_all add: dispatch_def BUFFER_DELIMITER_def PACKET_TYPE_STATUS_def PACKET_TYPE_ATTACK_def)
  have p: "process_queue us ua (f @ BUFFER_DELIMITER # rest) = process_queue us ua rest" for rest
    by (simp add: process_queue_frame [OF assms(1)] d split: prod.splits)
  have "process_queue us ua (f @ [BUFFER_DELIMITER]) = ([], [], False)"
    using p [of "[]"] by (simp add: process_queue_no_delim)
  then have "queueBuffer st = [] \<and> length (f @ [BUFFER_DELIMITER]) < BUFFER_SIZE \<longrightarrow>
              read_chunk us ua (f @ [BUFFER_DELIMITER]) None st = st"
    by (simp add: read_chunk_def)
  with d p show ?thesis by blast
qed

text \<open>A frame of type 2 in front of a valid Status frame, and the delimiter alone.\<close>

theorem unknown_packet_type_discarded_witness:
  "process_queue proto_Unmarshal_Status proto_Unmarshal_Attack
     ([0x02, 0x0A, 0x01, 0x61] @ BUFFER_DELIMITER #
        [0x00, 0x0A, 0x02, 0x61, 0x62, 0x12, 0x05, 0x08, 0x05, 0x10, 0xAC, 0x02, 0x24])
     = ([], [StatusReceiver [0x61, 0x62] \<lparr>X = 5, Y = 300\<rparr>], False)
   \<and> read_chunk proto_Unmarshal_Status proto_Unmarshal_Attack ([] @ [BUFFER_DELIMITER]) None accepted
     = accepted"
  using unknown_packet_type_discarded
          [of "[0x02, 0x0A, 0x01, 0x61]" proto_Unmarshal_Status proto_Unmarshal_Attack
              "[0x00, 0x0A, 0x02, 0x61, 0x62, 0x12, 0x05, 0x08, 0x05, 0x10, 0xAC, 0x02, 0x24]" accepted]
        unknown_packet_type_discarded
          [of "[]" proto_Unmarshal_Status proto_Unmarshal_Attack "[]" accepted]
  by (simp add: codec_defs receiver_defs)

section \<open>Properties of the sender\<close>

lemma send_loop_stopped [simp]: "run st \<noteq> Running \<Longrightarrow> send_loop u cs st = st"
  by (cases cs) simp_all

text \<open>Fewer failed writes than the counter allows: no panic, no deregistration.\<close>

lemma send_loop_below:
  "run st \<noteq> Panicked \<Longrightarrow> int (write_failures cs) < faultTolerance st \<Longrightarrow>
   run (send_loop u cs st) \<noteq> Panicked
   \<and> filter deregistration (trace (send_loop u cs st)) = filter deregistration (trace st)"
proof (induction cs arbitrary: st)
  case Nil
  then show ?case by simp
next
  case (Cons c cs)
  show ?case
  proof (cases "run st = Running")
    case False
    with Cons.prems show ?thesis by simp
  next
    case True
    show ?thesis
    proof (cases c)
      case (BroadcastUpdate b)
      show ?thesis
      proof (cases b)
        case WriteFailed
        let ?st' = "write_error u (st\<lparr>trace := trace st @ [conn_Write]\<rparr>)"
        have f: "1 < faultTolerance st"
          using Cons.prems(2) BroadcastUpdate WriteFailed by (simp add: write_failures_def)
        then have st': "?st' = st\<lparr>trace := trace st @ [conn_Write], faultTolerance := faultTolerance st - 1\<rparr>"
          by (simp add: write_error_def Let_def)
        have "run (send_loop u cs ?st') \<noteq> Panicked
              \<and> filter deregistration (trace (send_loop u cs ?st')) = filter deregistration (trace ?st')"
          using Cons.prems BroadcastUpdate WriteFailed True
          by (intro Cons.IH) (simp_all add: st' write_failures_def)
        then show ?thesis
          using True BroadcastUpdate WriteFailed by (simp add: st')
      next
        case Written
        have "run (send_loop u cs (st\<lparr>trace := trace st @ [conn_Write]\<rparr>)) \<noteq> Panicked
              \<and> filter deregistration (trace (send_loop u cs (st\<lparr>trace := trace st @ [conn_Write]\<rparr>)))
                  = filter deregistration (trace (st\<lparr>trace := trace st @ [conn_Write]\<rparr>))"
          using Cons.prems BroadcastUpdate Written True
          by (intro Cons.IH) (simp_all add: write_failures_def)
        then show ?thesis
          using True BroadcastUpdate Written by simp
      next
        case UserStatusNil
        then show ?thesis
          using Cons True BroadcastUpdate by (simp add: write_failures_def)
      next
        case MarshalFailed
        then show ?thesis
          using Cons True BroadcastUpdate by simp
      qed
    qed (use True in \<open>simp_all add: return_deferred_def\<close>)
  qed
qed

text \<open>
  As many failed writes as the counter holds, in a run of ticks: the failure that brings
  the counter to zero deregisters the user and panics.
\<close>

lemma send_loop_exhausted:
  "run st = Running \<Longrightarrow> 0 < faultTolerance st \<Longrightarrow> \<forall>c\<in>set cs. broadcast_only c \<Longrightarrow>
   faultTolerance st \<le> int (write_failures cs) \<Longrightarrow>
   run (send_loop u cs st) = Panicked
   \<and> filter deregistration (trace (send_loop u cs st))
       = filter deregistration (trace st)
          @ [gameMap_RemoveUser u, userStatuses_RemoveUser u, scoreboard_RemoveUser u]
   \<and> last (trace (send_loop u cs st)) = sendMutualTerminationSignal"
proof (induction cs arbitrary: st)
  case Nil
  then show ?case by (simp add: write_failures_def)
next
  case (Cons c cs)
  from Cons.prems(3) obtain b where c: "c = BroadcastUpdate b" and b: "b \<noteq> MarshalFailed"
    by (cases c) auto
  show ?case
  proof (cases b)
    case WriteFailed
    let ?st' = "write_error u (st\<lparr>trace := trace st @ [conn_Write]\<rparr>)"
    show ?thesis
    proof (cases "faultTolerance st = 1")
      case True
      then have "?st' = st\<lparr>trace := trace st @ [conn_Write, gameMap_RemoveUser u,
                            userStatuses_RemoveUser u, scoreboard_RemoveUser u,
                            sendMutualTerminationSignal],
                          run := Panicked, faultTolerance := 0\<rparr>"
        by (simp add: write_error_def Let_def return_deferred_def)
      then show ?thesis
        using Cons.prems(1) c WriteFailed by simp
    next
      case False
      then have f: "1 < faultTolerance st" using Cons.prems(2) by simp
      then have st': "?st' = st\<lparr>trace := trace st @ [conn_Write], faultTolerance := faultTolerance st - 1\<rparr>"
        by (simp add: write_error_def Let_def)
      have "run (send_loop u cs ?st') = Panicked
            \<and> filter deregistration (trace (send_loop u cs ?st'))
                = filter deregistration (trace ?st')
                   @ [gameMap_RemoveUser u, userStatuses_RemoveUser u, scoreboard_RemoveUser u]
            \<and> last (trace (send_loop u cs ?st')) = sendMutualTerminationSignal"
        using Cons.prems c WriteFailed f
        by (intro Cons.IH) (simp_all add: st' write_failures_def)
      then show ?thesis
        using Cons.prems(1) c WriteFailed by (simp add: st')
    qed
  next
    case Written
    have "run (send_loop u cs (st\<lparr>trace := trace st @ [conn_Write]\<rparr>)) = Panicked
          \<and> filter deregistration (trace (send_loop u cs (st\<lparr>trace := trace st @ [conn_Write]\<rparr>)))
              = filter deregistration (trace (st\<lparr>trace := trace st @ [conn_Write]\<rparr>))
                 @ [gameMap_RemoveUser u, userStatuses_RemoveUser u, scoreboard_RemoveUser u]
          \<and> last (trace (send_loop u cs (st\<lparr>trace := trace st @ [conn_Write]\<rparr>))) = sendMutualTerminationSignal"
      using Cons.prems c Written
      by (intro Cons.IH) (simp_all add: write_failures_def)
    then show ?thesis
      using Cons.prems(1) c Written by simp
  next
    case UserStatusNil
    then show ?thesis
      using Cons c by (simp add: write_failures_def)
  next
    case MarshalFailed
    with b show ?thesis by simp
  qed
qed

text \<open>
  C2, as the code has it. The counter starts at 100, loses one at every failed write and
  is never reset. A sender whose broadcast ticks meet 100 failed writes or more in total,
  consecutive or not (no other signal arriving), deregisters the user from the game map,
  the user statuses and the scoreboard, each exactly once and in this order, at the
  hundredth failure, then panics, which runs the deferred termination signal. With fewer
  than 100 failed writes in total, whatever else happens, it never deregisters and never
  panics.
\<close>

theorem fault_tolerance_exhaustion:
  "((\<forall>c\<in>set cs. broadcast_only c) \<and> 100 \<le> write_failures cs \<longrightarrow>
      run (CollectToSendUserRelatedDataToClient u Connected cs) = Panicked
      \<and> filter deregistration (trace (CollectToSendUserRelatedDataToClient u Connected cs))
          = [gameMap_RemoveUser u, userStatuses_RemoveUser u, scoreboard_RemoveUser u]
      \<and> last (trace (CollectToSendUserRelatedDataToClient u Connected cs)) = sendMutualTerminationSignal)
   \<and> (write_failures cs < 100 \<longrightarrow>
      run (CollectToSendUserRelatedDataToClient u Connected cs) \<noteq> Panicked
      \<and> filter deregistration (trace (CollectToSendUserRelatedDataToClient u Connected cs)) = [])"
proof (intro conjI impI)
  let ?st = "\<lparr>trace = [], run = Running, faultTolerance = 100\<rparr>"
  assume a: "(\<forall>c\<in>set cs. broadcast_only c) \<and> 100 \<le> write_failures cs"
  have e: "run (send_loop u cs ?st) = Panicked
   \<and> filter deregistration (trace (send_loop u cs ?st))
       = filter deregistration (trace ?st)
          @ [gameMap_RemoveUser u, userStatuses_RemoveUser u, scoreboard_RemoveUser u]
   \<and> last (trace (send_loop u cs ?st)) = sendMutualTerminationSignal"
    using a by (intro send_loop_exhausted) simp_all
  from e show "run (CollectToSendUserRelatedDataToClient u Connected cs) = Panicked"
    by (simp add: CollectToSendUserRelatedDataToClient_def)
  from e show "filter deregistration (trace (CollectToSendUserRelatedDataToClient u Connected cs))
          = [gameMap_RemoveUser u, userStatuses_RemoveUser u, scoreboard_RemoveUser u]"
    by (simp add: CollectToSendUserRelatedDataToClient_def)
  from e show "last (trace (CollectToSendUserRelatedDataToClient u Connected cs)) = sendMutualTerminationSignal"
    by (simp add: CollectToSendUserRelatedDataToClient_def)
next
  let ?st = "\<lparr>trace = [], run = Running, faultTolerance = 100\<rparr>"
  assume a: "write_failures cs < 100"
  have e: "run (send_loop u cs ?st) \<noteq> Panicked
   \<and> filter deregistration (trace (send_loop u cs ?st)) = filter deregistration (trace ?st)"
    using a by (intro send_loop_below) simp_all
  from e show "run (CollectToSendUserRelatedDataToClient u Connected cs) \<noteq> Panicked"
    by (simp add: CollectToSendUserRelatedDataToClient_def)
  from e show "filter deregistration (trace (CollectToSendUserRelatedDataToClient u Connected cs)) = []"
    by (simp add: CollectToSendUserRelatedDataToClient_def)
qed

text \<open>
  A sender with 100 failed writes among successful ones and skipped ticks, and one with
  99 failed writes.
\<close>

theorem fault_tolerance_exhaustion_witness:
  "(run (CollectToSendUserRelatedDataToClient ''user0'' Connected
          (BroadcastUpdate Written # BroadcastUpdate UserStatusNil
             # replicate 100 (BroadcastUpdate WriteFailed))) = Panicked
    \<and> filter deregistration
        (trace (CollectToSendUserRelatedDataToClient ''user0'' Connected
                  (BroadcastUpdate Written # BroadcastUpdate UserStatusNil
                     # replicate 100 (BroadcastUpdate WriteFailed))))
      = [gameMap_RemoveUser ''user0'', userStatuses_RemoveUser ''user0'',
         scoreboard_RemoveUser ''user0'']
    \<and> last (trace (CollectToSendUserRelatedDataToClient ''user0'' Connected
                  (BroadcastUpdate Written # BroadcastUpdate UserStatusNil
                     # replicate 100 (BroadcastUpdate WriteFailed))))
      = sendMutualTerminationSignal)
   \<and> (run (CollectToSendUserRelatedDataToClient ''user0'' Connected
            (replicate 99 (BroadcastUpdate WriteFailed))) \<noteq> Panicked
    \<and> filter deregistration
        (trace (CollectToSendUserRelatedDataToClient ''user0'' Connected
                  (replicate 99 (BroadcastUpdate WriteFailed)))) = [])"
proof -
  have h1: "(\<forall>c\<in>set (BroadcastUpdate Written # BroadcastUpdate UserStatusNil
                         # replicate 100 (BroadcastUpdate WriteFailed)). broadcast_only c)
            \<and> 100 \<le> write_failures (BroadcastUpdate Written # BroadcastUpdate UserStatusNil
                                        # replicate 100 (BroadcastUpdate WriteFailed))"
    by (simp add: write_failures_def)
  have h2: "write_failures (replicate 99 (BroadcastUpdate WriteFailed)) < 100"
    by (simp add: write_failures_def)
  show ?thesis
    using fault_tolerance_exhaustion
            [of "BroadcastUpdate Written # BroadcastUpdate UserStatusNil
                   # replicate 100 (BroadcastUpdate WriteFailed)" "''user0''",
             THEN conjunct1, THEN mp, OF h1]
          fault_tolerance_exhaustion
            [of "replicate 99 (BroadcastUpdate WriteFailed)" "''user0''",
             THEN conjunct2, THEN mp, OF h2]
    by (rule conjI)
qed

text \<open>
  C2 as stated fails at the threshold and on the word consecutive. Exactly 100
  consecutive failed writes, which are not more than 100, already deregister the user and
  panic. And 100 failed writes that each follow a successful write, so that no two are
  consecutive, do the same.
\<close>

theorem fault_tolerance_exhaustion_counterexample:
  "run (CollectToSendUserRelatedDataToClient ''user0'' Connected
          (replicate 100 (BroadcastUpdate WriteFailed))) = Panicked
   \<and> filter deregistration
        (trace (CollectToSendUserRelatedDataToClient ''user0'' Connected
                  (replicate 100 (BroadcastUpdate WriteFailed))))
      = [gameMap_RemoveUser ''user0'', userStatuses_RemoveUser ''user0'',
         scoreboard_RemoveUser ''user0'']
   \<and> run (CollectToSendUserRelatedDataToClient ''user0'' Connected
            (concat (replicate 100 [BroadcastUpdate Written, BroadcastUpdate WriteFailed])))
      = Panicked
   \<and> filter deregistration
        (trace (CollectToSendUserRelatedDataToClient ''user0'' Connected
                  (concat (replicate 100 [BroadcastUpdate Written, BroadcastUpdate WriteFailed]))))
      = [gameMap_RemoveUser ''user0'', userStatuses_RemoveUser ''user0'',
         scoreboard_RemoveUser ''user0'']"
proof -
  let ?st = "\<lparr>trace = [], run = Running, faultTolerance = 100\<rparr>"
  let ?row = "replicate 100 (BroadcastUpdate WriteFailed)"
  let ?apart = "concat (replicate 100 [BroadcastUpdate Written, BroadcastUpdate WriteFailed])"
  have w: "write_failures ?apart = 100"
    by (simp add: write_failures_def filter_concat length_concat sum_list_replicate)
  have r: "run (send_loop ''user0'' ?row ?st) = Panicked
   \<and> filter deregistration (trace (send_loop ''user0'' ?row ?st))
       = filter deregistration (trace ?st)
          @ [gameMap_RemoveUser ''user0'', userStatuses_RemoveUser ''user0'',
             scoreboard_RemoveUser ''user0'']
   \<and> last (trace (send_loop ''user0'' ?row ?st)) = sendMutualTerminationSignal"
    by (intro send_loop_exhausted) (simp_all add: write_failures_def)
  have a: "run (send_loop ''user0'' ?apart ?st) = Panicked
   \<and> filter deregistration (trace (send_loop ''user0'' ?apart ?st))
       = filter deregistration (trace ?st)
          @ [gameMap_RemoveUser ''user0'', userStatuses_RemoveUser ''user0'',
             scoreboard_RemoveUser ''user0'']
   \<and> last (trace (send_loop ''user0'' ?apart ?st)) = sendMutualTerminationSignal"
    by (intro send_loop_exhausted) (simp_all add: w)
  from r a show ?thesis
    by (simp add: CollectToSendUserRelatedDataToClient_def)
qed

section \<open>Properties of the event processor\<close>

lemma ProcessIncoming_stopped [simp]: "run st \<noteq> Running \<Longrightarrow> ProcessIncoming cs st = st"
  by (cases cs) simp_all

lemma ProcessIncoming_append:
  "ProcessIncoming (pre @ cs) st = ProcessIncoming cs (ProcessIncoming pre st)"
proof (induction pre arbitrary: st)
  case Nil
  show ?case by simp
next
  case (Cons c pre)
  show ?case
  proof (cases "run st = Running")
    case False
    then show ?thesis by simp
  next
    case True
    then show ?thesis
      using Cons.IH
      by (cases c) (simp_all add: return_deferred_def split: option.splits)
  qed
qed

text \<open>
  C7. A processor that is still running when the mutual-termination signal arrives sets
  its worker's status to \<open>TERMINATED\<close> and returns; when the force-exit signal arrives it
  panics, leaving the status as it is. In both cases the deferred call sends the
  termination signal on, which tears the other tasks of the session down.
\<close>

theorem processor_shutdown:
  assumes "run (ProcessIncoming pre st) = Running"
  shows "ProcessIncoming (pre @ mutualTerminationSignal # cs) st
           = (ProcessIncoming pre st)
               \<lparr>trace := trace (ProcessIncoming pre st) @ [sendMutualTerminationSignal],
                run := Returned,
                worker := (worker (ProcessIncoming pre st))\<lparr>status := TERMINATED\<rparr>\<rparr>
         \<and> ProcessIncoming (pre @ ProcessForceExit # cs) st
           = (ProcessIncoming pre st)
               \<lparr>trace := trace (ProcessIncoming pre st) @ [sendMutualTerminationSignal],
                run := Panicked\<rparr>"
  using assms by (simp add: ProcessIncoming_append return_deferred_def)

text \<open>A position update and a liveness ping, then each of the two signals.\<close>

theorem processor_shutdown_witness:
  "ProcessIncoming
     ([statusReceiver \<lparr>StatusId = [0x61], CurrentPosition = Some \<lparr>X = 3, Y = 4\<rparr>\<rparr>, ProcessHealthCheck]
        @ mutualTerminationSignal # [ProcessHealthCheck])
     \<lparr>trace = [], run = Running, worker = pulled_worker\<lparr>status := WORKING\<rparr>\<rparr>
   = \<lparr>trace = [UpdateUserPosition [0x61] \<lparr>X = 3, Y = 4\<rparr>, HealthCheckerEcho,
               sendMutualTerminationSignal],
      run = Returned, worker = pulled_worker\<lparr>status := TERMINATED\<rparr>\<rparr>
   \<and> ProcessIncoming
     ([statusReceiver \<lparr>StatusId = [0x61], CurrentPosition = Some \<lparr>X = 3, Y = 4\<rparr>\<rparr>, ProcessHealthCheck]
        @ ProcessForceExit # [ProcessHealthCheck])
     \<lparr>trace = [], run = Running, worker = pulled_worker\<lparr>status := WORKING\<rparr>\<rparr>
   = \<lparr>trace = [UpdateUserPosition [0x61] \<lparr>X = 3, Y = 4\<rparr>, HealthCheckerEcho,
               sendMutualTerminationSignal],
      run = Panicked, worker = pulled_worker\<lparr>status := WORKING\<rparr>\<rparr>"
  using processor_shutdown
    [of "[statusReceiver \<lparr>StatusId = [0x61], CurrentPosition = Some \<lparr>X = 3, Y = 4\<rparr>\<rparr>, ProcessHealthCheck]"
        "\<lparr>trace = [], run = Running, worker = pulled_worker\<lparr>status := WORKING\<rparr>\<rparr>"
        "[ProcessHealthCheck]"]
  by (simp add: return_deferred_def)

section \<open>Properties of the server\<close>

text \<open>
  C8. When the pool that \<open>LaunchWorkers\<close> leaves does not have exactly \<open>WORKER_COUNT\<close>
  available slots, \<open>NewServer\<close> panics, so that no server exists to serve a request; when
  it has, \<open>NewServer\<close> returns the server over this pool.
\<close>

theorem startup_capacity_invariant:
  "(GetAvailableWorkerCount (LaunchWorkers n) \<noteq> n \<longrightarrow>
      NewServer n LaunchWorkers
        = Inl (worker_pool_initialization_failed (int (length (Pool (LaunchWorkers n)))) n))
   \<and> (GetAvailableWorkerCount (LaunchWorkers n) = n \<longrightarrow>
      (\<exists>srv. NewServer n LaunchWorkers = Inr srv \<and> workerPool srv = LaunchWorkers n))"
  by (simp add: NewServer_def Let_def)

text \<open>A launch that leaves one slot of two, and a launch that leaves both.\<close>

theorem startup_capacity_invariant_witness:
  "NewServer 2 (\<lambda>n. \<lparr>Pool = replicate (nat n - 1) (pulled_worker\<lparr>status := IDLE\<rparr>)\<rparr>)
     = Inl (worker_pool_initialization_failed 1 2)
   \<and> (\<exists>srv. NewServer 2 (\<lambda>n. \<lparr>Pool = replicate (nat n) (pulled_worker\<lparr>status := IDLE\<rparr>)\<rparr>) = Inr srv
          \<and> workerPool srv = \<lparr>Pool = replicate 2 (pulled_worker\<lparr>status := IDLE\<rparr>)\<rparr>)"
  using startup_capacity_invariant
          [of "\<lambda>n. \<lparr>Pool = replicate (nat n - 1) (pulled_worker\<lparr>status := IDLE\<rparr>)\<rparr>" 2]
        startup_capacity_invariant
          [of "\<lambda>n. \<lparr>Pool = replicate (nat n) (pulled_worker\<lparr>status := IDLE\<rparr>)\<rparr>" 2]
  by (simp add: GetAvailableWorkerCount_def)

text \<open>
  C10. A login request with a parsed address, a parsed port and a non-empty user id, for
  which \<open>Pull\<close> hands out a slot, is answered with status 200 and the slot's port and
  puts the user on the scoreboard with score 0, whatever the status of the slot and
  whatever \<open>SetClientInformation\<close> and \<open>StartSendUserRelatedDataToClient\<close> return: the
  slot is left as the two calls leave it, force-exit signals included.
\<close>

theorem login_ignores_slot_errors:
  assumes "RemoteIP r = Some ip" and "clientPort r = Some p" and "userId r \<noteq> []"
    and "pull (workerPool srv) = Some (w, pool)"
  shows "StatusCode (fst (get_worker_port pull r srv)) = 200
         \<and> Body (fst (get_worker_port pull r srv)) = Sprintf_d (Port w)
         \<and> Scoreboard (snd (snd (get_worker_port pull r srv))) (userId r) = Some 0
         \<and> fst (snd (get_worker_port pull r srv))
             = Some (snd (StartSendUserRelatedDataToClient
                            (snd (SetClientInformation (userId r) (Some ip) p w))))"
  using assms by (simp add: get_worker_port_def Let_def)

text \<open>
  A pool that hands out a slot that is already working: both calls fail, two force-exit
  signals are sent, and the answer is 200 with the port all the same. And the pool of the
  specification handing out a slot without a send routine: the second call fails.
\<close>

theorem login_ignores_slot_errors_witness:
  "get_worker_port (\<lambda>wp. Some (pulled_worker\<lparr>status := WORKING\<rparr>, wp))
     \<lparr>userId = ''user0'', clientPort = Some 40000, RemoteIP = Some [127, 0, 0, 1]\<rparr>
     \<lparr>workerPool = \<lparr>Pool = []\<rparr>, Scoreboard = Map.empty\<rparr>
   = (\<lparr>StatusCode = 200, ContentType = ''text/plain'', Body = ''50001''\<rparr>,
      Some (pulled_worker\<lparr>status := WORKING, ForceExitSignal := 2\<rparr>),
      \<lparr>workerPool = \<lparr>Pool = []\<rparr>, Scoreboard = [''user0'' \<mapsto> 0]\<rparr>)
   \<and> get_worker_port Pull
     \<lparr>userId = ''user1'', clientPort = Some 40001, RemoteIP = Some [127, 0, 0, 1]\<rparr>
     \<lparr>workerPool = \<lparr>Pool = [pulled_worker\<lparr>status := IDLE, SendUserRelatedDataToClient := False\<rparr>]\<rparr>,
      Scoreboard = Map.empty\<rparr>
   = (\<lparr>StatusCode = 200, ContentType = ''text/plain'', Body = ''50001''\<rparr>,
      Some (pulled_worker\<lparr>status := CLIENT_INFORMATION_RECEIVED, OwnerUserID := ''user1'',
                           ClientIP := Some [127, 0, 0, 1], ClientPort := 40001,
                           ForceExitSignal := 1, SendUserRelatedDataToClient := False\<rparr>),
      \<lparr>workerPool = \<lparr>Pool = []\<rparr>, Scoreboard = [''user1'' \<mapsto> 0]\<rparr>)"
  using login_ignores_slot_errors
          [of "\<lparr>userId = ''user0'', clientPort = Some 40000, RemoteIP = Some [127, 0, 0, 1]\<rparr>"
              "[127, 0, 0, 1]" 40000 "\<lambda>wp. Some (pulled_worker\<lparr>status := WORKING\<rparr>, wp)"
              "\<lparr>workerPool = \<lparr>Pool = []\<rparr>, Scoreboard = Map.empty\<rparr>"
              "pulled_worker\<lparr>status := WORKING\<rparr>" "\<lparr>Pool = []\<rparr>"]
  by (simp add: get_worker_port_def Let_def SetClientInformation_def
        StartSendUserRelatedDataToClient_def GetStatus_def ChangeStatus_def send_ForceExitSignal_def
        pulled_worker_def Sprintf_d_def decimal.simps Pull_def)

end
